theory Spec2Isabelle
  imports Main
begin

unbundle bit_operations_syntax

section \<open>The host: syntax nodes and the type checker\<close>

text \<open>
  The module reads a TypeScript syntax tree and queries the compiler's type checker.
  Only the node kinds the code tests for are told apart; every other kind of node is
  \<open>OtherNode\<close>, with a number that keeps distinct nodes distinct. Of each node only
  the fields the code reads are kept: a block's statements, the declarations of a variable
  statement's declaration list, a declaration's initializer, the operand of an await
  expression, the callee and the arguments of a call, the expression of a return
  statement.
\<close>

datatype Node =
    Block "Node list"
  | VariableStatement "Node list"
  | VariableDeclaration "Node option"
  | AwaitExpression Node
  | CallExpression Node "Node list"
  | ReturnStatement "Node option"
  | OtherNode nat

text \<open>
  A function-like declaration (\<open>ts.SignatureDeclaration\<close>) is given by the children
  that \<open>ts.forEachChild\<close> visits, in order: modifiers, name, parameters, return type
  and, when the function has a block body, that block.
\<close>

datatype SignatureDeclaration = SignatureDeclaration (children: "Node list")

text \<open>
  Types and symbols are opaque handles \<open>'ty\<close> and \<open>'sym\<close> of the compiler. The record
  holds the methods of \<open>ts.TypeChecker\<close> the code calls, and the methods of the node,
  type and symbol objects themselves (\<open>getText\<close>, \<open>getBaseTypes\<close>, \<open>getFlags\<close>,
  \<open>getProperty\<close>, \<open>getName\<close>). \<open>typeToString\<close> takes an optional type because the code
  hands it array elements that may be \<open>undefined\<close>.
\<close>

record ('ty, 'sym) TypeChecker =
  getTypeAtLocation :: "Node \<Rightarrow> 'ty"
  getAnyType :: "'ty"
  getVoidType :: "'ty"
  getPropertiesOfType :: "'ty \<Rightarrow> 'sym list"
  getTypeOfSymbol :: "'sym \<Rightarrow> 'ty"
  getTypeArguments :: "'ty \<Rightarrow> 'ty list"
  typeToString :: "'ty option \<Rightarrow> string"
  getText :: "Node \<Rightarrow> string"
  getBaseTypes :: "'ty \<Rightarrow> 'ty list option"
  getFlags :: "'ty \<Rightarrow> nat"
  getProperty :: "'ty \<Rightarrow> string \<Rightarrow> 'sym option"
  getName :: "'sym \<Rightarrow> string"

text \<open>\<open>ts.TypeFlags.Object\<close> is bit 19.\<close>

definition TypeFlags_Object :: nat where
  "TypeFlags_Object = 524288"

text \<open>Reading a JavaScript array at an index: \<open>undefined\<close> when out of range.\<close>

definition index :: "'a list \<Rightarrow> nat \<Rightarrow> 'a option" where
  "index xs i = (if i < length xs then Some (xs ! i) else None)"

text \<open>\<open>Array.prototype.join\<close> on an array of strings.\<close>

fun join :: "string \<Rightarrow> string list \<Rightarrow> string" where
  "join sep [] = []"
| "join sep [x] = x"
| "join sep (x # y # ys) = x @ sep @ join sep (y # ys)"

text \<open>
  \<open>ts.forEachChild\<close> calls the callback on each child in order and returns the first
  truthy value a callback returns; when no callback returns one, it returns
  \<open>undefined\<close>. The first form is for a callback without effects. The second threads
  the variable that the callback assigns.
\<close>

fun forEachChild :: "Node list \<Rightarrow> (Node \<Rightarrow> 'a option) \<Rightarrow> 'a option" where
  "forEachChild [] cbNode = None"
| "forEachChild (node # nodes) cbNode =
     (case cbNode node of
        Some result \<Rightarrow> Some result
      | None \<Rightarrow> forEachChild nodes cbNode)"

fun forEachChildState ::
  "Node list \<Rightarrow> (Node \<Rightarrow> 's \<Rightarrow> 'a option \<times> 's) \<Rightarrow> 's \<Rightarrow> 'a option \<times> 's" where
  "forEachChildState [] cbNode s = (None, s)"
| "forEachChildState (node # nodes) cbNode s =
     (case cbNode node s of
        (Some result, s') \<Rightarrow> (Some result, s')
      | (None, s') \<Rightarrow> forEachChildState nodes cbNode s')"

section \<open>generateUrlType\<close>

text \<open>
  The argument \<open>fieldList\<close> is the list \<open>Object.entries(fields)\<close>, in its iteration
  order; a value is \<open>None\<close> where the field is \<open>undefined\<close>.
\<close>

definition generateUrlType :: "(string \<times> string option) list \<Rightarrow> string" where
  "generateUrlType fieldList =
     (let entries = filter (\<lambda>(_, type). type \<noteq> None) fieldList
      in if length entries = 0 then ''never''
         else ''{ '' @ join ''; ''
                (map (\<lambda>(name, type). name @ '': '' @
                        (case type of Some t \<Rightarrow> t | None \<Rightarrow> ''undefined'')) entries) @ '' }'')"

section \<open>getSchema\<close>

definition declarationSchema :: "Node \<Rightarrow> Node option" where
  "declarationSchema declaration =
     (case declaration of
        VariableDeclaration (Some (AwaitExpression (CallExpression expression arguments))) \<Rightarrow>
          index arguments 1
      | _ \<Rightarrow> None)"

definition statementSchema :: "Node \<Rightarrow> Node option" where
  "statementSchema node =
     (case node of
        VariableStatement declarations \<Rightarrow> forEachChild declarations declarationSchema
      | _ \<Rightarrow> None)"

definition getSchema :: "SignatureDeclaration \<Rightarrow> Node option" where
  "getSchema func =
     forEachChild (children func)
       (\<lambda>node. case node of
                  Block statements \<Rightarrow> forEachChild statements statementSchema
                | _ \<Rightarrow> None)"

section \<open>getReturnType\<close>

text \<open>
  The callback on the statements of a block: the argument and the result are the value
  of the variable \<open>returnType\<close> before and after the callback.
\<close>

definition visitStatement ::
  "('ty, 'sym) TypeChecker \<Rightarrow> Node \<Rightarrow> 'ty option \<Rightarrow> 'ty option" where
  "visitStatement typeChecker child returnType =
     (case child of
        ReturnStatement (Some expression) \<Rightarrow>
          (let returnType1 =
             (case expression of
                CallExpression calledFunction arguments \<Rightarrow>
                  (if getText typeChecker calledFunction = ''json'' then
                     (case index arguments 0 of
                        Some jsonArgument \<Rightarrow> Some (getTypeAtLocation typeChecker jsonArgument)
                      | None \<Rightarrow> returnType)
                   else returnType)
              | _ \<Rightarrow> returnType)
           in case returnType1 of
                None \<Rightarrow> Some (getAnyType typeChecker)
              | Some t \<Rightarrow> Some t)
      | _ \<Rightarrow> returnType)"

definition visitChild ::
  "('ty, 'sym) TypeChecker \<Rightarrow> Node \<Rightarrow> 'ty option \<Rightarrow> unit option \<times> 'ty option" where
  "visitChild typeChecker node returnType =
     (case node of
        Block statements \<Rightarrow>
          (None, snd (forEachChildState statements
             (\<lambda>child rt. (None :: unit option, visitStatement typeChecker child rt)) returnType))
      | _ \<Rightarrow> (None, returnType))"

definition getReturnType :: "('ty, 'sym) TypeChecker \<Rightarrow> SignatureDeclaration \<Rightarrow> 'ty" where
  "getReturnType typeChecker func =
     (case snd (forEachChildState (children func) (visitChild typeChecker) None) of
        Some returnType \<Rightarrow> returnType
      | None \<Rightarrow> getVoidType typeChecker)"

record 'ty SchemaDescriptor =
  schema :: "Node option"
  returnType :: "'ty option"

definition getSchemaFromFunction ::
  "('ty, 'sym) TypeChecker \<Rightarrow> SignatureDeclaration \<Rightarrow> 'ty SchemaDescriptor" where
  "getSchemaFromFunction typeChecker func =
     \<lparr> schema = getSchema func, returnType = Some (getReturnType typeChecker func) \<rparr>"

section \<open>getZodTypeToString\<close>

text \<open>
  Calling a method on \<open>undefined\<close> raises a \<open>TypeError\<close>. The outcome of a call is
  \<open>None\<close> when the recursion never ends, \<open>Some (Inl e)\<close> when it raises \<open>e\<close> and
  \<open>Some (Inr v)\<close> when it returns \<open>v\<close>. The argument is optional because the recursive
  calls pass \<open>zodArguments[0]\<close>, which is \<open>undefined\<close> for an empty array.
\<close>

datatype error = TypeError

type_synonym 'a outcome = "(error + 'a) option"

text \<open>\<open>type.getBaseTypes()?.[0]\<close>\<close>

definition firstBaseType :: "('ty, 'sym) TypeChecker \<Rightarrow> 'ty \<Rightarrow> 'ty option" where
  "firstBaseType typeChecker ty =
     (case getBaseTypes typeChecker ty of
        None \<Rightarrow> None
      | Some baseTypes \<Rightarrow> index baseTypes 0)"

partial_function (option) getZodTypeToString ::
  "('ty, 'sym) TypeChecker \<Rightarrow> 'ty option \<Rightarrow> string outcome" where
  "getZodTypeToString typeChecker type =
     (case type of
        None \<Rightarrow> Some (Inl TypeError)
      | Some ty \<Rightarrow>
          (case firstBaseType typeChecker ty of
             Some zodType \<Rightarrow>
               Some (Inr (typeToString typeChecker
                            (index (getTypeArguments typeChecker zodType) 2)))
           | None \<Rightarrow>
               (let zodArguments = getTypeArguments typeChecker ty
                in if length zodArguments = 5 then
                     Some (Inr (typeToString typeChecker (index zodArguments 4)))
                   else if length zodArguments = 2 then
                     Option.bind (getZodTypeToString typeChecker (index zodArguments 0))
                       (\<lambda>r. case r of
                               Inl e \<Rightarrow> Some (Inl e)
                             | Inr s \<Rightarrow> Some (Inr (s @ ''[]'')))
                   else getZodTypeToString typeChecker (index zodArguments 0))))"

declare getZodTypeToString.simps [code]

section \<open>parseSchema\<close>

text \<open>Sequencing of two computations: a raise or a non-ending call in the first ends both.\<close>

definition andThen :: "'a outcome \<Rightarrow> ('a \<Rightarrow> 'b outcome) \<Rightarrow> 'b outcome" where
  "andThen m f =
     (case m of
        None \<Rightarrow> None
      | Some (Inl e) \<Rightarrow> Some (Inl e)
      | Some (Inr v) \<Rightarrow> f v)"

text \<open>\<open>Array.prototype.map\<close> with a callback that may raise: elements are visited in order.\<close>

fun mapOutcome :: "('a \<Rightarrow> 'b outcome) \<Rightarrow> 'a list \<Rightarrow> 'b list outcome" where
  "mapOutcome f [] = Some (Inr [])"
| "mapOutcome f (x # xs) =
     andThen (f x) (\<lambda>y. andThen (mapOutcome f xs) (\<lambda>ys. Some (Inr (y # ys))))"

text \<open>
  The callback of \<open>map\<close> on the properties: \<open>None\<close> is the callback's \<open>null\<close>, which
  the \<open>filter\<close> that follows removes. An empty string is falsy, so \<open>!outputType\<close> holds
  exactly for the empty string.
\<close>

definition propertyEntry :: "('ty, 'sym) TypeChecker \<Rightarrow> 'sym \<Rightarrow> string option outcome" where
  "propertyEntry typeChecker property =
     (if getName typeChecker property = ''searchParams'' then Some (Inr None)
      else andThen
             (getZodTypeToString typeChecker (Some (getTypeOfSymbol typeChecker property)))
             (\<lambda>outputType.
                if outputType = [] then Some (Inr None)
                else Some (Inr (Some (getName typeChecker property @ '': '' @ outputType)))))"

record ParsedSchema =
  body :: "string option"
  searchParams :: "string option"
  returnType :: "string option"

text \<open>The initializer of \<open>const body\<close>.\<close>

definition parseBody ::
  "('ty, 'sym) TypeChecker \<Rightarrow> 'ty option \<Rightarrow> bool \<Rightarrow> string option outcome" where
  "parseBody typeChecker zodInputType skipBody =
     (if skipBody then Some (Inr None)
      else case zodInputType of
             None \<Rightarrow> Some (Inr None)
           | Some t \<Rightarrow>
               andThen
                 (mapOutcome (propertyEntry typeChecker) (getPropertiesOfType typeChecker t))
                 (\<lambda>entries.
                    Some (Inr (Some (''{ '' @ join ''; '' [entry. Some entry \<leftarrow> entries]
                                     @ '' }'')))))"

text \<open>The statements that assign \<open>searchParams\<close>.\<close>

definition parseSearchParams ::
  "('ty, 'sym) TypeChecker \<Rightarrow> 'ty option \<Rightarrow> string option outcome" where
  "parseSearchParams typeChecker zodInputType =
     (case Option.bind zodInputType (\<lambda>t. getProperty typeChecker t ''searchParams'') of
        None \<Rightarrow> Some (Inr None)
      | Some searchParamsSymbol \<Rightarrow>
          (let searchParamsType = getTypeOfSymbol typeChecker searchParamsSymbol
           in if (getFlags typeChecker searchParamsType AND TypeFlags_Object) \<noteq> 0 then
                andThen (getZodTypeToString typeChecker (Some searchParamsType))
                  (\<lambda>s. Some (Inr (Some s)))
              else Some (Inr None)))"

definition parseSchema ::
  "('ty, 'sym) TypeChecker \<Rightarrow> 'ty SchemaDescriptor \<Rightarrow> bool \<Rightarrow> ParsedSchema outcome" where
  "parseSchema typeChecker data skipBody =
     (let zodInputType =
            (case schema data of
               Some node \<Rightarrow> Some (getTypeAtLocation typeChecker node)
             | None \<Rightarrow> None)
      in andThen (parseBody typeChecker zodInputType skipBody)
           (\<lambda>body0.
              andThen (parseSearchParams typeChecker zodInputType)
                (\<lambda>searchParams0.
                   (let returnType0 =
                          (case SchemaDescriptor.returnType data of
                             Some t \<Rightarrow> Some (typeToString typeChecker (Some t))
                           | None \<Rightarrow> None)
                    in Some (Inr \<lparr> body = (if body0 \<noteq> Some ''{  }'' then body0 else None),
                                     searchParams = searchParams0,
                                     returnType = returnType0 \<rparr>)))))"

section \<open>Notions used to state the properties\<close>

subsection \<open>Fields and record strings\<close>

text \<open>The fields with a defined value, in order, and their rendering as a record body.\<close>

fun definedFields :: "(string \<times> string option) list \<Rightarrow> (string \<times> string) list" where
  "definedFields [] = []"
| "definedFields ((name, None) # rest) = definedFields rest"
| "definedFields ((name, Some type) # rest) = (name, type) # definedFields rest"

fun recordFields :: "(string \<times> string) list \<Rightarrow> string" where
  "recordFields [] = []"
| "recordFields [(name, type)] = name @ '': '' @ type"
| "recordFields ((name, type) # f # fs) = name @ '': '' @ type @ ''; '' @ recordFields (f # fs)"

subsection \<open>Statements of a handler\<close>

text \<open>
  The direct statements of the blocks among the children of a function: for a function
  with a block body, the statements of the body.
\<close>

definition bodyStatements :: "SignatureDeclaration \<Rightarrow> Node list" where
  "bodyStatements func = concat [statements. Block statements \<leftarrow> children func]"

definition firstOf :: "'a list \<Rightarrow> 'a option" where
  "firstOf xs = (case xs of [] \<Rightarrow> None | x # _ \<Rightarrow> Some x)"

text \<open>
  The second arguments of the awaited calls that initialize a binding, over the bindings
  of a declaration list, and over the variable statements of a statement list, in order.
\<close>

definition declarationCandidates :: "Node list \<Rightarrow> Node list" where
  "declarationCandidates declarations =
     [schemaArg.
        VariableDeclaration (Some (AwaitExpression (CallExpression call (a # schemaArg # rest))))
          \<leftarrow> declarations]"

definition statementCandidates :: "Node list \<Rightarrow> Node list" where
  "statementCandidates statements =
     concat [declarationCandidates declarations. VariableStatement declarations \<leftarrow> statements]"

text \<open>
  The first arguments of the \<open>return json(...)\<close> statements of a statement list, and the
  expressions of its return statements, in order.
\<close>

definition jsonArguments :: "('ty, 'sym) TypeChecker \<Rightarrow> Node list \<Rightarrow> Node list" where
  "jsonArguments typeChecker statements =
     [jsonArgument.
        ReturnStatement (Some (CallExpression calledFunction (jsonArgument # rest))) \<leftarrow> statements,
        getText typeChecker calledFunction = ''json'']"

definition returnExpressions :: "Node list \<Rightarrow> Node list" where
  "returnExpressions statements =
     [expression. ReturnStatement (Some expression) \<leftarrow> statements]"

subsection \<open>Properties of a schema\<close>

definition schemaProperties :: "('ty, 'sym) TypeChecker \<Rightarrow> 'ty SchemaDescriptor \<Rightarrow> 'sym list" where
  "schemaProperties typeChecker data =
     (case schema data of
        None \<Rightarrow> []
      | Some node \<Rightarrow> getPropertiesOfType typeChecker (getTypeAtLocation typeChecker node))"

text \<open>The string a call of the unwrapper returns; empty when the call returns no string.\<close>

definition unwrapped :: "('ty, 'sym) TypeChecker \<Rightarrow> 'ty \<Rightarrow> string" where
  "unwrapped typeChecker ty =
     (case getZodTypeToString typeChecker (Some ty) of
        Some (Inr s) \<Rightarrow> s
      | _ \<Rightarrow> [])"

text \<open>
  The properties that are not excluded from the body: those not named \<open>searchParams\<close>
  whose unwrapping is not empty.
\<close>

definition bodyProperties :: "('ty, 'sym) TypeChecker \<Rightarrow> 'ty SchemaDescriptor \<Rightarrow> 'sym list" where
  "bodyProperties typeChecker data =
     filter (\<lambda>property. getName typeChecker property \<noteq> ''searchParams''
                      \<and> unwrapped typeChecker (getTypeOfSymbol typeChecker property) \<noteq> [])
       (schemaProperties typeChecker data)"

definition bodyPair :: "('ty, 'sym) TypeChecker \<Rightarrow> 'sym \<Rightarrow> string" where
  "bodyPair typeChecker property =
     getName typeChecker property @ '': ''
       @ unwrapped typeChecker (getTypeOfSymbol typeChecker property)"

text \<open>
  The type of the schema's property \<open>searchParams\<close>, when a schema node is present, its
  type has that property and the property's type is flagged as an object type.
\<close>

definition searchParamsObjectType ::
  "('ty, 'sym) TypeChecker \<Rightarrow> 'ty SchemaDescriptor \<Rightarrow> 'ty option" where
  "searchParamsObjectType typeChecker data =
     (case schema data of
        None \<Rightarrow> None
      | Some node \<Rightarrow>
          (case getProperty typeChecker (getTypeAtLocation typeChecker node) ''searchParams'' of
             None \<Rightarrow> None
           | Some symbol \<Rightarrow>
               (if (getFlags typeChecker (getTypeOfSymbol typeChecker symbol) AND TypeFlags_Object) \<noteq> 0
                then Some (getTypeOfSymbol typeChecker symbol)
                else None)))"

subsection \<open>An example type checker\<close>

text \<open>
  Types and symbols are numbers. Type 1 is a string schema whose base type 2 has the type
  arguments \<open>[0, 9, 0]\<close>; type 3 is an object schema (five type arguments); type 4 is an
  array schema of type 1 (two type arguments); type 6 wraps type 1 (one type argument);
  type 8 is its own only type argument; type 0 is the primitive \<open>string\<close>, with no base
  type and no type argument. The schema type 5 has the properties \<open>name\<close> (symbol 0,
  type 1), \<open>searchParams\<close> (symbol 1, type 3) and \<open>tags\<close> (symbol 2, type 4); the schema
  type 7 has the property \<open>name\<close> (symbol 3, type 0). Types 20 and 21 are \<open>any\<close> and
  \<open>void\<close>. The node \<open>OtherNode k\<close> has type \<open>k\<close>; the nodes 100 and 101 are the
  identifiers \<open>json\<close> and \<open>someOtherFn\<close>.
\<close>

definition exampleChecker :: "(nat, nat) TypeChecker" where
  "exampleChecker =
     \<lparr> getTypeAtLocation = (\<lambda>node. case node of OtherNode k \<Rightarrow> k | _ \<Rightarrow> 20),
       getAnyType = 20,
       getVoidType = 21,
       getPropertiesOfType = (\<lambda>t. if t = 5 then [0, 1, 2] else if t = 7 then [3] else []),
       getTypeOfSymbol =
         (\<lambda>s. if s = 0 then 1 else if s = 1 then 3 else if s = 2 then 4 else 0),
       getTypeArguments =
         (\<lambda>t. if t = 2 then [0, 9, 0] else if t = 3 then [10, 11, 12, 13, 14]
              else if t = 4 then [1, 15] else if t = 6 then [1] else if t = 8 then [8]
              else []),
       typeToString =
         (\<lambda>t. case t of
                None \<Rightarrow> ''any''
              | Some k \<Rightarrow>
                  (if k = 0 then ''string'' else if k = 14 then ''{ page: number }''
                   else if k = 20 then ''any'' else if k = 21 then ''void'' else ''unknown'')),
       getText =
         (\<lambda>node. if node = OtherNode 100 then ''json''
                 else if node = OtherNode 101 then ''someOtherFn'' else []),
       getBaseTypes = (\<lambda>t. if t = 1 then Some [2] else None),
       getFlags = (\<lambda>t. if t = 3 then 524288 else if t = 0 then 4 else 0),
       getProperty = (\<lambda>t name. if t = 5 \<and> name = ''searchParams'' then Some 1 else None),
       getName = (\<lambda>s. if s = 1 then ''searchParams'' else if s = 2 then ''tags'' else ''name'') \<rparr>"

subsection \<open>An example type checker with types that are not schemas\<close>

text \<open>
  Type 1 is a string schema as before and type 0 the primitive \<open>string\<close>. Type 32 is a
  plain object type: it has the object flag, no base type and no type argument. The
  schema type 30 has the properties \<open>name\<close> (symbol 0, type 1) and \<open>method\<close> (symbol 4,
  type 0), as the type of \<open>{ name: z.string(), method: 'POST' }\<close> has. The schema type 31
  has the one property \<open>searchParams\<close> (symbol 5, type 32).
\<close>

definition plainChecker :: "(nat, nat) TypeChecker" where
  "plainChecker =
     \<lparr> getTypeAtLocation = (\<lambda>node. case node of OtherNode k \<Rightarrow> k | _ \<Rightarrow> 20),
       getAnyType = 20,
       getVoidType = 21,
       getPropertiesOfType = (\<lambda>t. if t = 30 then [0, 4] else if t = 31 then [5] else []),
       getTypeOfSymbol = (\<lambda>s. if s = 0 then 1 else if s = 5 then 32 else 0),
       getTypeArguments = (\<lambda>t. if t = 2 then [0, 9, 0] else []),
       typeToString =
         (\<lambda>t. case t of
                None \<Rightarrow> ''any''
              | Some k \<Rightarrow>
                  (if k = 0 then ''string'' else if k = 20 then ''any''
                   else if k = 21 then ''void'' else ''unknown'')),
       getText = (\<lambda>node. if node = OtherNode 100 then ''json'' else []),
       getBaseTypes = (\<lambda>t. if t = 1 then Some [2] else None),
       getFlags = (\<lambda>t. if t = 32 then 524288 else if t = 0 then 4 else 0),
       getProperty = (\<lambda>t name. if t = 31 \<and> name = ''searchParams'' then Some 5 else None),
       getName = (\<lambda>s. if s = 5 then ''searchParams'' else if s = 4 then ''method'' else ''name'') \<rparr>"

section \<open>generateUrlType: the rendering of a field mapping\<close>

lemma filter_defined:
  "filter (\<lambda>(_, type). type \<noteq> None) fieldList
   = map (\<lambda>(name, type). (name, Some type)) (definedFields fieldList)"
  by (induction fieldList rule: definedFields.induct) auto

lemma join_recordFields:
  "join ''; ''
     (map (\<lambda>(name, type). name @ '': '' @ (case type of Some t \<Rightarrow> t | None \<Rightarrow> ''undefined''))
        (map (\<lambda>(name, type). (name, Some type)) fs))
   = recordFields fs"
  by (induction fs rule: recordFields.induct) (auto split: prod.splits)

text \<open>
  C8. \<open>generateUrlType\<close> drops the entries whose value is \<open>undefined\<close>. When no defined
  entry remains, the result is the string \<open>never\<close>; this covers the empty mapping and
  the mapping whose only value is \<open>undefined\<close>. Otherwise the result is the record string
  of the defined fields, as \<open>name: type\<close> pairs in iteration order, separated by
  \<open>"; "\<close> and enclosed in \<open>"{ "\<close> and \<open>" }"\<close>. The defined fields are exactly the
  entries of the mapping that hold a value, in the same order.
\<close>

theorem generateUrlType_renders:
  "generateUrlType fieldList =
     (if definedFields fieldList = [] then ''never''
      else ''{ '' @ recordFields (definedFields fieldList) @ '' }'')
   \<and> map (\<lambda>(name, type). (name, Some type)) (definedFields fieldList)
       = filter (\<lambda>(name, type). type \<noteq> None) fieldList
   \<and> generateUrlType [] = ''never''
   \<and> generateUrlType [(''a'', None)] = ''never''"
proof -
  have renders: "generateUrlType fs =
     (if definedFields fs = [] then ''never''
      else ''{ '' @ recordFields (definedFields fs) @ '' }'')" for fs
    unfolding generateUrlType_def Let_def filter_defined join_recordFields by simp
  have "generateUrlType [] = ''never''"
    by (simp add: renders)
  moreover have "generateUrlType [(''a'', None)] = ''never''"
    by (simp add: renders)
  ultimately show ?thesis
    using renders [of fieldList] filter_defined [of fieldList, symmetric] by blast
qed

section \<open>getSchema: the first candidate in document order\<close>

lemma firstOf_append:
  "firstOf (xs @ ys) = (case firstOf xs of Some x \<Rightarrow> Some x | None \<Rightarrow> firstOf ys)"
  by (cases xs) (simp_all add: firstOf_def)

lemma forEachChild_firstOf:
  assumes "\<And>node. cbNode node = firstOf (g node)"
  shows "forEachChild nodes cbNode = firstOf (concat (map g nodes))"
proof (induction nodes)
  case Nil
  show ?case by (simp add: firstOf_def)
next
  case (Cons node nodes)
  then show ?case by (simp add: assms firstOf_append split: option.split)
qed

lemma declarationSchema_firstOf:
  "declarationSchema declaration = firstOf (declarationCandidates [declaration])"
  by (auto simp: declarationSchema_def declarationCandidates_def index_def firstOf_def
      split: Node.splits option.splits list.splits)

lemma declarationCandidates_concat:
  "declarationCandidates declarations
   = concat (map (\<lambda>d. declarationCandidates [d]) declarations)"
  by (induction declarations) (simp_all add: declarationCandidates_def)

lemma statementSchema_firstOf:
  "statementSchema node = firstOf (statementCandidates [node])"
proof (cases node)
  case (VariableStatement declarations)
  have "forEachChild declarations declarationSchema
        = firstOf (concat (map (\<lambda>d. declarationCandidates [d]) declarations))"
    by (rule forEachChild_firstOf) (rule declarationSchema_firstOf)
  then show ?thesis
    using VariableStatement declarationCandidates_concat [of declarations]
    by (simp add: statementSchema_def statementCandidates_def)
qed (simp_all add: statementSchema_def statementCandidates_def firstOf_def)

lemma statementCandidates_append:
  "statementCandidates (xs @ ys) = statementCandidates xs @ statementCandidates ys"
  by (simp add: statementCandidates_def)

lemma statementCandidates_concat:
  "statementCandidates statements = concat (map (\<lambda>s. statementCandidates [s]) statements)"
  by (induction statements) (simp_all add: statementCandidates_def)

lemma statementCandidates_blocks:
  "statementCandidates (concat [statements. Block statements \<leftarrow> nodes])
   = concat (map (\<lambda>node. case node of
                             Block statements \<Rightarrow> statementCandidates statements
                           | _ \<Rightarrow> [])
               nodes)"
  by (induction nodes) (auto simp: statementCandidates_append split: Node.splits,
      simp_all add: statementCandidates_def)

lemma getSchema_firstOf:
  "getSchema func = firstOf (statementCandidates (bodyStatements func))"
proof -
  have cb: "(case node of
               Block statements \<Rightarrow> forEachChild statements statementSchema
             | _ \<Rightarrow> None)
            = firstOf (case node of
                         Block statements \<Rightarrow> statementCandidates statements
                       | _ \<Rightarrow> [])" for node
  proof (cases node)
    case (Block statements)
    have "forEachChild statements statementSchema
          = firstOf (concat (map (\<lambda>s. statementCandidates [s]) statements))"
      by (rule forEachChild_firstOf) (rule statementSchema_firstOf)
    then show ?thesis
      using Block statementCandidates_concat [of statements] by simp
  qed (simp_all add: firstOf_def)
  show ?thesis
    unfolding getSchema_def bodyStatements_def statementCandidates_blocks
    using forEachChild_firstOf [OF cb] by simp
qed

lemma declarationCandidates_append:
  "declarationCandidates (xs @ ys) = declarationCandidates xs @ declarationCandidates ys"
  by (simp add: declarationCandidates_def)

text \<open>
  C1. When the first statement of a handler's body is a variable statement with a binding
  initialized with \<open>await call(a, schemaArg, ...)\<close>, and no binding before it in that
  statement is such a binding, \<open>getSchema\<close> returns the node \<open>schemaArg\<close>, the second
  argument of that call. This covers the statement \<open>const x = await call(a, schemaArg)\<close>,
  which has that binding only.
\<close>

theorem getSchema_first_statement:
  assumes "bodyStatements func =
             VariableStatement
               (before
                @ VariableDeclaration
                    (Some (AwaitExpression (CallExpression call (a # schemaArg # rest))))
                  # after)
             # statements"
    and "declarationCandidates before = []"
  shows "getSchema func = Some schemaArg"
proof -
  have "declarationCandidates
          (before
           @ VariableDeclaration
               (Some (AwaitExpression (CallExpression call (a # schemaArg # rest))))
             # after)
        = schemaArg # declarationCandidates after"
    unfolding declarationCandidates_append assms(2) by (simp add: declarationCandidates_def)
  then show ?thesis
    unfolding getSchema_firstOf assms(1) by (simp add: statementCandidates_def firstOf_def)
qed

theorem getSchema_first_statement_witness:
  "getSchema
     (SignatureDeclaration
        [OtherNode 50,
         Block
           [VariableStatement
              [VariableDeclaration
                 (Some (AwaitExpression
                          (CallExpression (OtherNode 102) [OtherNode 60, OtherNode 5])))],
            ReturnStatement (Some (CallExpression (OtherNode 100) [OtherNode 0]))]])
   = Some (OtherNode 5)"
  by (rule getSchema_first_statement [where before = "[]"])
     (simp_all add: bodyStatements_def declarationCandidates_def)

text \<open>
  C2, as the code has it. The search does not stop at a statement or a binding that
  yields nothing: \<open>ts.forEachChild\<close> goes on to the next sibling until a callback
  returns a node. So a first statement that yields no schema node is skipped, the result
  is the first candidate of the body in document order, and \<open>getSchema\<close> returns absent
  only when the body has no candidate at all.
\<close>

theorem getSchema_skips_first_statement:
  "(statementSchema first = None \<longrightarrow>
      getSchema (SignatureDeclaration [Block (first # statements)])
      = getSchema (SignatureDeclaration [Block statements]))
   \<and> getSchema func = firstOf (statementCandidates (bodyStatements func))
   \<and> (getSchema func = None) = (statementCandidates (bodyStatements func) = [])"
proof -
  have "statementCandidates [first] = []" if "statementSchema first = None"
    using that unfolding statementSchema_firstOf by (simp add: firstOf_def split: list.splits)
  then have "statementSchema first = None \<longrightarrow>
      getSchema (SignatureDeclaration [Block (first # statements)])
      = getSchema (SignatureDeclaration [Block statements])"
    using statementCandidates_append [of "[first]" statements]
    by (simp add: getSchema_firstOf bodyStatements_def)
  moreover have "(getSchema func = None) = (statementCandidates (bodyStatements func) = [])"
    by (simp add: getSchema_firstOf firstOf_def split: list.splits)
  ultimately show ?thesis
    using getSchema_firstOf by blast
qed

theorem getSchema_skips_first_statement_witness:
  "statementSchema (OtherNode 70) = None
   \<and> getSchema
       (SignatureDeclaration
          [Block
             [OtherNode 70,
              VariableStatement
                [VariableDeclaration
                   (Some (AwaitExpression
                            (CallExpression (OtherNode 102) [OtherNode 60, OtherNode 5])))]]])
     = Some (OtherNode 5)"
proof -
  let ?later =
    "[VariableStatement
        [VariableDeclaration
           (Some (AwaitExpression
                    (CallExpression (OtherNode 102) [OtherNode 60, OtherNode 5])))]]"
  have first: "statementSchema (OtherNode 70) = None"
    by (simp add: statementSchema_def)
  have later: "getSchema (SignatureDeclaration [Block ?later]) = Some (OtherNode 5)"
    by (simp add: getSchema_def statementSchema_def declarationSchema_def index_def)
  from getSchema_skips_first_statement [of "OtherNode 70" ?later]
  have "getSchema (SignatureDeclaration [Block (OtherNode 70 # ?later)])
        = getSchema (SignatureDeclaration [Block ?later])"
    using first by blast
  with first later show ?thesis
    by simp
qed

theorem getSchema_later_statement_counterexample:
  "getSchema
     (SignatureDeclaration
        [Block
           [VariableStatement [VariableDeclaration (Some (OtherNode 71))],
            VariableStatement
              [VariableDeclaration
                 (Some (AwaitExpression
                          (CallExpression (OtherNode 102) [OtherNode 60, OtherNode 5])))]]])
   = Some (OtherNode 5)"
  by (simp add: getSchema_def statementSchema_def declarationSchema_def index_def)

section \<open>getReturnType: the candidate after all return statements\<close>

lemma forEachChildState_fold:
  "forEachChildState nodes (\<lambda>node s. (None, f node s)) s = (None, fold f nodes s)"
  by (induction nodes arbitrary: s) simp_all

lemma visitChild_fold:
  "visitChild typeChecker node rt =
     (None, case node of
              Block statements \<Rightarrow> fold (visitStatement typeChecker) statements rt
            | _ \<Rightarrow> rt)"
  by (simp add: visitChild_def forEachChildState_fold split: Node.splits)

lemma fold_blocks:
  "fold (\<lambda>node rt. case node of Block statements \<Rightarrow> fold f statements rt | _ \<Rightarrow> rt) nodes rt
   = fold f (concat [statements. Block statements \<leftarrow> nodes]) rt"
  by (induction nodes arbitrary: rt) (auto split: Node.splits)

lemma getReturnType_fold:
  "getReturnType typeChecker func =
     (case fold (visitStatement typeChecker) (bodyStatements func) None of
        Some t \<Rightarrow> t
      | None \<Rightarrow> getVoidType typeChecker)"
proof -
  have "visitChild typeChecker =
        (\<lambda>node rt. (None, case node of
                             Block statements \<Rightarrow> fold (visitStatement typeChecker) statements rt
                           | _ \<Rightarrow> rt))"
    by (intro ext) (rule visitChild_fold)
  then show ?thesis
    by (simp add: getReturnType_def forEachChildState_fold fold_blocks bodyStatements_def)
qed

lemma jsonArguments_append:
  "jsonArguments typeChecker (xs @ ys)
   = jsonArguments typeChecker xs @ jsonArguments typeChecker ys"
  by (simp add: jsonArguments_def)

lemma returnExpressions_append:
  "returnExpressions (xs @ ys) = returnExpressions xs @ returnExpressions ys"
  by (simp add: returnExpressions_def)

lemma jsonArguments_subset:
  "returnExpressions statements = [] \<Longrightarrow> jsonArguments typeChecker statements = []"
  by (induction statements)
     (auto simp: returnExpressions_def jsonArguments_def split: Node.splits option.splits)

text \<open>
  One statement: a \<open>return json(arg, ...)\<close> sets the candidate to the type of \<open>arg\<close>;
  another return statement with an expression sets it to \<open>any\<close> when it is still unset,
  and leaves it otherwise; any other statement leaves it.
\<close>

lemma visitStatement_cases:
  "visitStatement typeChecker child rt =
     (if jsonArguments typeChecker [child] \<noteq> []
      then Some (getTypeAtLocation typeChecker (last (jsonArguments typeChecker [child])))
      else if returnExpressions [child] \<noteq> []
      then (case rt of None \<Rightarrow> Some (getAnyType typeChecker) | Some t \<Rightarrow> Some t)
      else rt)"
  by (auto simp: visitStatement_def jsonArguments_def returnExpressions_def index_def
      split: Node.splits option.splits list.splits)

lemma fold_visitStatement:
  "fold (visitStatement typeChecker) statements rt =
     (if jsonArguments typeChecker statements \<noteq> []
      then Some (getTypeAtLocation typeChecker (last (jsonArguments typeChecker statements)))
      else if returnExpressions statements \<noteq> []
      then (case rt of None \<Rightarrow> Some (getAnyType typeChecker) | Some t \<Rightarrow> Some t)
      else rt)"
proof (induction statements rule: rev_induct)
  case Nil
  show ?case by (simp add: jsonArguments_def returnExpressions_def)
next
  case (snoc child statements)
  show ?case
    unfolding fold_append comp_def fold_simps snoc.IH jsonArguments_append
      returnExpressions_append
    by (simp add: visitStatement_cases split: option.splits)
qed

lemma getReturnType_char:
  "getReturnType typeChecker func =
     (if jsonArguments typeChecker (bodyStatements func) \<noteq> []
      then getTypeAtLocation typeChecker (last (jsonArguments typeChecker (bodyStatements func)))
      else if returnExpressions (bodyStatements func) \<noteq> [] then getAnyType typeChecker
      else getVoidType typeChecker)"
  by (simp add: getReturnType_fold fold_visitStatement)

text \<open>
  C3, as the code has it. \<open>getReturnType\<close> always returns a type, so the descriptor's
  \<open>returnType\<close> is never absent. When the body has direct statements of the form
  \<open>return json(valueExpr, ...)\<close>, the result is the type of the \<open>valueExpr\<close> of the last of
  them: of the statement itself when no such statement follows it. When the only direct
  return statement with an expression calls a function whose text is not \<open>json\<close>, the
  result is \<open>any\<close>. When no direct statement is a return statement with an expression,
  the result is \<open>void\<close>.
\<close>

theorem getReturnType_cases:
  "(bodyStatements func
      = earlier @ ReturnStatement (Some (CallExpression calledFunction (valueExpr # rest))) # later
    \<and> getText typeChecker calledFunction = ''json''
    \<and> jsonArguments typeChecker later = []
    \<longrightarrow> getReturnType typeChecker func = getTypeAtLocation typeChecker valueExpr)
   \<and> (bodyStatements func
        = earlier @ ReturnStatement (Some (CallExpression calledFunction arguments)) # later
      \<and> getText typeChecker calledFunction \<noteq> ''json''
      \<and> returnExpressions earlier = [] \<and> returnExpressions later = []
      \<longrightarrow> getReturnType typeChecker func = getAnyType typeChecker)
   \<and> (returnExpressions (bodyStatements func) = []
      \<longrightarrow> getReturnType typeChecker func = getVoidType typeChecker)
   \<and> SchemaDescriptor.returnType (getSchemaFromFunction typeChecker func)
       = Some (getReturnType typeChecker func)"
proof (intro conjI impI)
  assume "bodyStatements func
      = earlier @ ReturnStatement (Some (CallExpression calledFunction (valueExpr # rest))) # later
    \<and> getText typeChecker calledFunction = ''json''
    \<and> jsonArguments typeChecker later = []"
  then have "jsonArguments typeChecker (bodyStatements func)
             = jsonArguments typeChecker earlier @ [valueExpr]"
    by (simp add: jsonArguments_append) (simp add: jsonArguments_def)
  then show "getReturnType typeChecker func = getTypeAtLocation typeChecker valueExpr"
    by (simp add: getReturnType_char)
next
  assume a: "bodyStatements func
        = earlier @ ReturnStatement (Some (CallExpression calledFunction arguments)) # later
      \<and> getText typeChecker calledFunction \<noteq> ''json''
      \<and> returnExpressions earlier = [] \<and> returnExpressions later = []"
  have "jsonArguments typeChecker
          [ReturnStatement (Some (CallExpression calledFunction arguments))] = []"
    using a by (simp add: jsonArguments_def split: list.splits)
  with a have "jsonArguments typeChecker (bodyStatements func) = []"
    using jsonArguments_append
      [of typeChecker earlier
          "ReturnStatement (Some (CallExpression calledFunction arguments)) # later"]
      jsonArguments_append
      [of typeChecker "[ReturnStatement (Some (CallExpression calledFunction arguments))]" later]
    by (simp add: jsonArguments_subset)
  moreover from a have "returnExpressions (bodyStatements func) \<noteq> []"
    by (simp add: returnExpressions_append) (simp add: returnExpressions_def)
  ultimately show "getReturnType typeChecker func = getAnyType typeChecker"
    by (simp add: getReturnType_char)
next
  assume "returnExpressions (bodyStatements func) = []"
  then show "getReturnType typeChecker func = getVoidType typeChecker"
    by (simp add: getReturnType_char jsonArguments_subset)
next
  show "SchemaDescriptor.returnType (getSchemaFromFunction typeChecker func)
        = Some (getReturnType typeChecker func)"
    by (simp add: getSchemaFromFunction_def)
qed

theorem getReturnType_cases_witness:
  "getReturnType exampleChecker
     (SignatureDeclaration
        [Block [OtherNode 70, ReturnStatement (Some (CallExpression (OtherNode 100) [OtherNode 0]))]])
   = 0
   \<and> getReturnType exampleChecker
       (SignatureDeclaration
          [Block [OtherNode 70,
                  ReturnStatement (Some (CallExpression (OtherNode 101) [OtherNode 14]))]])
     = 20
   \<and> getReturnType exampleChecker (SignatureDeclaration [Block [OtherNode 70]]) = 21"
proof -
  let ?json = "ReturnStatement (Some (CallExpression (OtherNode 100) [OtherNode 0]))"
  let ?other = "ReturnStatement (Some (CallExpression (OtherNode 101) [OtherNode 14]))"
  have "getReturnType exampleChecker (SignatureDeclaration [Block [OtherNode 70, ?json]])
        = getTypeAtLocation exampleChecker (OtherNode 0)"
    using getReturnType_cases
      [of "SignatureDeclaration [Block [OtherNode 70, ?json]]" "[OtherNode 70]"
          "OtherNode 100" "OtherNode 0" "[]" "[]" exampleChecker]
    by (simp add: bodyStatements_def jsonArguments_def exampleChecker_def)
  moreover
  have "getReturnType exampleChecker (SignatureDeclaration [Block [OtherNode 70, ?other]])
        = getAnyType exampleChecker"
    using getReturnType_cases
      [of "SignatureDeclaration [Block [OtherNode 70, ?other]]" "[OtherNode 70]"
          "OtherNode 101" _ _ "[]" exampleChecker "[OtherNode 14]"]
    by (simp add: bodyStatements_def returnExpressions_def exampleChecker_def)
  moreover
  have "getReturnType exampleChecker (SignatureDeclaration [Block [OtherNode 70]])
        = getVoidType exampleChecker"
    using getReturnType_cases [of "SignatureDeclaration [Block [OtherNode 70]]" _ _ _ _ _ exampleChecker]
    by (simp add: bodyStatements_def returnExpressions_def)
  ultimately show ?thesis
    by (simp add: exampleChecker_def)
qed

theorem getReturnType_two_json_returns_counterexample:
  "getReturnType exampleChecker
     (SignatureDeclaration
        [Block [ReturnStatement (Some (CallExpression (OtherNode 100) [OtherNode 0])),
                ReturnStatement (Some (CallExpression (OtherNode 100) [OtherNode 14]))]])
   = 14
   \<and> getTypeAtLocation exampleChecker (OtherNode 0) = 0"
  by (simp add: getReturnType_def visitChild_def visitStatement_def index_def exampleChecker_def)

text \<open>
  C4, as the code has it. All direct statements of the body are visited in order. The
  candidate is overwritten only by a \<open>return json(arg, ...)\<close>; a return statement of
  another form sets it to \<open>any\<close> when it is still unset and never overwrites it. So the
  result is the type of the argument of the last \<open>return json(arg, ...)\<close>, \<open>any\<close> when there
  is a return statement with an expression but none of that form, and \<open>void\<close> when there
  is none.
\<close>

theorem getReturnType_last_json_return:
  "getReturnType typeChecker func =
     (if jsonArguments typeChecker (bodyStatements func) \<noteq> []
      then getTypeAtLocation typeChecker (last (jsonArguments typeChecker (bodyStatements func)))
      else if returnExpressions (bodyStatements func) \<noteq> [] then getAnyType typeChecker
      else getVoidType typeChecker)"
  by (rule getReturnType_char)

theorem getReturnType_last_json_return_witness:
  "getReturnType exampleChecker
     (SignatureDeclaration
        [Block [ReturnStatement (Some (CallExpression (OtherNode 101) [OtherNode 14])),
                ReturnStatement (Some (CallExpression (OtherNode 100) [OtherNode 0])),
                ReturnStatement (Some (CallExpression (OtherNode 101) [OtherNode 14]))]])
   = 0"
  unfolding getReturnType_last_json_return
  by (simp add: bodyStatements_def jsonArguments_def exampleChecker_def)

theorem getReturnType_json_then_other_counterexample:
  "getReturnType exampleChecker
     (SignatureDeclaration
        [Block [ReturnStatement (Some (CallExpression (OtherNode 100) [OtherNode 0])),
                ReturnStatement (Some (CallExpression (OtherNode 101) [OtherNode 14]))]])
   = 0
   \<and> getReturnType exampleChecker
       (SignatureDeclaration
          [Block [ReturnStatement (Some (CallExpression (OtherNode 101) [OtherNode 14]))]])
     = 20"
  by (simp add: getReturnType_def visitChild_def visitStatement_def index_def exampleChecker_def)

section \<open>getZodTypeToString: the dispatch on base type and argument count\<close>

lemma index_nth: "i < length xs \<Longrightarrow> index xs i = Some (xs ! i)"
  by (simp add: index_def)

lemma index_Nil: "index [] i = None"
  by (simp add: index_def)

lemma getZodTypeToString_undefined:
  "getZodTypeToString typeChecker None = Some (Inl TypeError)"
  by (subst getZodTypeToString.simps) simp

lemma getZodTypeToString_base:
  assumes "firstBaseType typeChecker ty = Some zodType"
  shows "getZodTypeToString typeChecker (Some ty)
         = Some (Inr (typeToString typeChecker (index (getTypeArguments typeChecker zodType) 2)))"
  by (subst getZodTypeToString.simps) (simp add: assms)

lemma getZodTypeToString_no_base:
  assumes "firstBaseType typeChecker ty = None"
  shows "getZodTypeToString typeChecker (Some ty)
         = (let zodArguments = getTypeArguments typeChecker ty
            in if length zodArguments = 5 then
                 Some (Inr (typeToString typeChecker (index zodArguments 4)))
               else if length zodArguments = 2 then
                 andThen (getZodTypeToString typeChecker (index zodArguments 0))
                   (\<lambda>s. Some (Inr (s @ ''[]'')))
               else getZodTypeToString typeChecker (index zodArguments 0))"
proof -
  have bind: "Option.bind m (\<lambda>r. case r of Inl e \<Rightarrow> Some (Inl e) | Inr s \<Rightarrow> Some (Inr (s @ ''[]'')))
              = andThen m (\<lambda>s. Some (Inr (s @ ''[]'')))" for m :: "string outcome"
    by (cases m) (simp_all add: andThen_def split: sum.splits)
  show ?thesis
    by (subst getZodTypeToString.simps) (simp add: assms bind Let_def)
qed

text \<open>
  A type with no base type and an empty list of type arguments: the recursive call
  receives \<open>undefined\<close> and raises.
\<close>

lemma getZodTypeToString_no_arguments:
  assumes "firstBaseType typeChecker ty = None" and "getTypeArguments typeChecker ty = []"
  shows "getZodTypeToString typeChecker (Some ty) = Some (Inl TypeError)"
  by (simp add: getZodTypeToString_no_base assms index_Nil getZodTypeToString_undefined)

text \<open>
  A type that is its own first type argument, with one type argument: the recursion
  never ends.
\<close>

lemma getZodTypeToString_cyclic:
  "getZodTypeToString exampleChecker (Some 8) = None"
proof (rule ccontr)
  assume "getZodTypeToString exampleChecker (Some 8) \<noteq> None"
  then obtain y where y: "getZodTypeToString exampleChecker (Some 8) = Some y"
    by auto
  have "\<not> (exampleChecker = exampleChecker \<and> Some (8 :: nat) = Some 8)"
  proof (rule getZodTypeToString.raw_induct
      [where P = "\<lambda>typeChecker type z. \<not> (typeChecker = exampleChecker \<and> type = Some 8)",
        OF _ y])
    fix f :: "(nat, nat) TypeChecker \<Rightarrow> nat option \<Rightarrow> string outcome"
      and typeChecker type z
    assume IH: "\<And>typeChecker type z.
                  f typeChecker type = Some z \<Longrightarrow>
                  \<not> (typeChecker = exampleChecker \<and> type = Some 8)"
      and step: "(case type of
        None \<Rightarrow> Some (Inl TypeError)
      | Some ty \<Rightarrow>
          (case firstBaseType typeChecker ty of
             Some zodType \<Rightarrow>
               Some (Inr (typeToString typeChecker
                            (index (getTypeArguments typeChecker zodType) 2)))
           | None \<Rightarrow>
               (let zodArguments = getTypeArguments typeChecker ty
                in if length zodArguments = 5 then
                     Some (Inr (typeToString typeChecker (index zodArguments 4)))
                   else if length zodArguments = 2 then
                     Option.bind (f typeChecker (index zodArguments 0))
                       (\<lambda>r. case r of
                               Inl e \<Rightarrow> Some (Inl e)
                             | Inr s \<Rightarrow> Some (Inr (s @ ''[]'')))
                   else f typeChecker (index zodArguments 0)))) = Some z"
    show "\<not> (typeChecker = exampleChecker \<and> type = Some 8)"
    proof
      assume eq: "typeChecker = exampleChecker \<and> type = Some 8"
      have "firstBaseType exampleChecker 8 = None"
        "getTypeArguments exampleChecker 8 = [8]"
        by (simp_all add: firstBaseType_def exampleChecker_def)
      with step eq have "f exampleChecker (Some 8) = Some z"
        by (simp add: index_def)
      with IH show False
        by blast
    qed
  qed
  then show False
    by simp
qed

text \<open>
  C5. For a type handed to \<open>getZodTypeToString\<close>: when the type has a first base type,
  the call returns the rendering of that base type's third type argument. Otherwise,
  with exactly five type arguments it returns the rendering of the fifth; with exactly
  two, its outcome is that of unwrapping the first argument, with \<open>[]\<close> appended to the
  string returned; with any other number, its outcome is that of unwrapping
  \<open>zodArguments[0]\<close>, the first argument (\<open>undefined\<close> when the list is empty).
\<close>

theorem getZodTypeToString_cases:
  "(firstBaseType typeChecker ty = Some zodType \<longrightarrow>
      getZodTypeToString typeChecker (Some ty)
      = Some (Inr (typeToString typeChecker (index (getTypeArguments typeChecker zodType) 2))))
   \<and> (firstBaseType typeChecker ty = None \<and> length (getTypeArguments typeChecker ty) = 5 \<longrightarrow>
      getZodTypeToString typeChecker (Some ty)
      = Some (Inr (typeToString typeChecker (Some (getTypeArguments typeChecker ty ! 4)))))
   \<and> (firstBaseType typeChecker ty = None \<and> length (getTypeArguments typeChecker ty) = 2 \<longrightarrow>
      getZodTypeToString typeChecker (Some ty)
      = andThen (getZodTypeToString typeChecker (Some (getTypeArguments typeChecker ty ! 0)))
          (\<lambda>s. Some (Inr (s @ ''[]''))))
   \<and> (firstBaseType typeChecker ty = None \<and> length (getTypeArguments typeChecker ty) \<noteq> 5
      \<and> length (getTypeArguments typeChecker ty) \<noteq> 2 \<longrightarrow>
      getZodTypeToString typeChecker (Some ty)
      = getZodTypeToString typeChecker (index (getTypeArguments typeChecker ty) 0))"
  by (simp add: getZodTypeToString_base getZodTypeToString_no_base index_nth Let_def)

theorem getZodTypeToString_cases_witness:
  "getZodTypeToString exampleChecker (Some 1) = Some (Inr ''string'')
   \<and> getZodTypeToString exampleChecker (Some 3) = Some (Inr ''{ page: number }'')
   \<and> getZodTypeToString exampleChecker (Some 4) = Some (Inr ''string[]'')
   \<and> getZodTypeToString exampleChecker (Some 6) = Some (Inr ''string'')"
proof -
  have base: "firstBaseType exampleChecker 1 = Some 2"
    and none: "firstBaseType exampleChecker 3 = None" "firstBaseType exampleChecker 4 = None"
      "firstBaseType exampleChecker 6 = None"
    by (simp_all add: firstBaseType_def exampleChecker_def index_def)
  have args: "getTypeArguments exampleChecker 2 = [0, 9, 0]"
    "getTypeArguments exampleChecker 3 = [10, 11, 12, 13, 14]"
    "getTypeArguments exampleChecker 4 = [1, 15]"
    "getTypeArguments exampleChecker 6 = [1]"
    by (simp_all add: exampleChecker_def)
  have rendered: "typeToString exampleChecker (Some 0) = ''string''"
    "typeToString exampleChecker (Some 14) = ''{ page: number }''"
    by (simp_all add: exampleChecker_def)
  have one: "getZodTypeToString exampleChecker (Some 1) = Some (Inr ''string'')"
    using getZodTypeToString_cases [of exampleChecker 1 2] base
    by (simp add: args rendered index_def)
  then have one': "getZodTypeToString exampleChecker (Some (Suc 0)) = Some (Inr ''string'')"
    by simp
  have three: "getZodTypeToString exampleChecker (Some 3) = Some (Inr ''{ page: number }'')"
    using getZodTypeToString_cases [of exampleChecker 3] none
    by (simp add: args rendered)
  have four: "getZodTypeToString exampleChecker (Some 4) = Some (Inr ''string[]'')"
    using getZodTypeToString_cases [of exampleChecker 4] none
    by (simp add: args one' andThen_def)
  have six: "getZodTypeToString exampleChecker (Some 6) = Some (Inr ''string'')"
    using getZodTypeToString_cases [of exampleChecker 6] none
    by (simp add: args one' index_def)
  from one three four six show ?thesis
    by simp
qed

text \<open>
  C9, at a failing input. Type 0 of the example checker has no base type and no type
  argument: unwrapping it raises a \<open>TypeError\<close>, and so does \<open>parseSchema\<close> on a schema
  whose type (type 7) has a property of that type.
\<close>

theorem getZodTypeToString_raises:
  "getZodTypeToString exampleChecker (Some 0) = Some (Inl TypeError)
   \<and> parseSchema exampleChecker \<lparr>schema = Some (OtherNode 7), returnType = Some 21\<rparr> False
     = Some (Inl TypeError)"
proof -
  have raises: "getZodTypeToString exampleChecker (Some 0) = Some (Inl TypeError)"
    by (rule getZodTypeToString_no_arguments)
       (simp_all add: firstBaseType_def exampleChecker_def)
  have "propertyEntry exampleChecker 3 = Some (Inl TypeError)"
    using raises by (simp add: propertyEntry_def andThen_def exampleChecker_def)
  then have "parseBody exampleChecker (Some 7) False = Some (Inl TypeError)"
    by (simp add: parseBody_def andThen_def) (simp add: exampleChecker_def andThen_def)
  then have "parseSchema exampleChecker \<lparr>schema = Some (OtherNode 7), returnType = Some 21\<rparr> False
     = Some (Inl TypeError)"
    by (simp add: parseSchema_def andThen_def) (simp add: exampleChecker_def andThen_def)
  with raises show ?thesis
    by simp
qed

section \<open>parseSchema: the three fields\<close>

lemma andThen_returns:
  "(andThen m f = Some (Inr r)) = (\<exists>v. m = Some (Inr v) \<and> f v = Some (Inr r))"
  by (cases m) (auto simp: andThen_def split: sum.splits)

lemma join_empty:
  assumes "\<And>x. x \<in> set xs \<Longrightarrow> x \<noteq> []"
  shows "(join sep xs = []) = (xs = [])"
  using assms by (induction sep xs rule: join.induct) auto

lemma propertyEntry_returns:
  assumes "propertyEntry typeChecker property = Some (Inr entry)"
  shows "entry =
           (if getName typeChecker property \<noteq> ''searchParams''
               \<and> unwrapped typeChecker (getTypeOfSymbol typeChecker property) \<noteq> []
            then Some (bodyPair typeChecker property)
            else None)"
  using assms
  by (auto simp: propertyEntry_def andThen_returns unwrapped_def bodyPair_def split: if_splits)

lemma mapOutcome_propertyEntry:
  assumes "mapOutcome (propertyEntry typeChecker) properties = Some (Inr entries)"
  shows "[entry. Some entry \<leftarrow> entries]
         = map (bodyPair typeChecker)
             (filter (\<lambda>property. getName typeChecker property \<noteq> ''searchParams''
                        \<and> unwrapped typeChecker (getTypeOfSymbol typeChecker property) \<noteq> [])
                properties)"
  using assms
proof (induction properties arbitrary: entries)
  case Nil
  then show ?case by simp
next
  case (Cons property properties)
  from Cons.prems obtain entry rest where
    entry: "propertyEntry typeChecker property = Some (Inr entry)"
    and rest: "mapOutcome (propertyEntry typeChecker) properties = Some (Inr rest)"
    and entries: "entries = entry # rest"
    by (auto simp: andThen_returns)
  show ?case
    unfolding entries using Cons.IH [OF rest] propertyEntry_returns [OF entry]
    by simp
qed

lemma bodyPair_not_empty: "bodyPair typeChecker property \<noteq> []"
  by (simp add: bodyPair_def)

lemma braces_empty: "(''{ '' @ s @ '' }'' = ''{  }'') = (s = [])"
  by simp

lemma parseBody_returns:
  assumes "parseBody typeChecker
             (case schema data of
                Some node \<Rightarrow> Some (getTypeAtLocation typeChecker node)
              | None \<Rightarrow> None)
             skipBody
           = Some (Inr body0)"
  shows "(if body0 \<noteq> Some ''{  }'' then body0 else None) =
           (if skipBody \<or> schema data = None \<or> bodyProperties typeChecker data = [] then None
            else Some (''{ '' @ join ''; ''
                         (map (bodyPair typeChecker) (bodyProperties typeChecker data)) @ '' }''))"
proof (cases "skipBody \<or> schema data = None")
  case True
  with assms show ?thesis
    by (auto simp: parseBody_def split: if_splits option.splits)
next
  case False
  then obtain node where node: "schema data = Some node" and skip: "\<not> skipBody"
    by auto
  from assms obtain entries where
    entries: "mapOutcome (propertyEntry typeChecker) (schemaProperties typeChecker data)
              = Some (Inr entries)"
    and body0: "body0 = Some (''{ '' @ join ''; '' [entry. Some entry \<leftarrow> entries] @ '' }'')"
    by (auto simp: parseBody_def node skip andThen_returns schemaProperties_def)
  have pairs: "[entry. Some entry \<leftarrow> entries]
               = map (bodyPair typeChecker) (bodyProperties typeChecker data)"
    using mapOutcome_propertyEntry [OF entries] by (simp add: bodyProperties_def)
  have "(join ''; '' (map (bodyPair typeChecker) (bodyProperties typeChecker data)) = [])
        = (bodyProperties typeChecker data = [])"
  proof -
    have "x \<noteq> []"
      if "x \<in> set (map (bodyPair typeChecker) (bodyProperties typeChecker data))" for x
      using that by (auto simp: bodyPair_not_empty)
    then show ?thesis
      using join_empty [of "map (bodyPair typeChecker) (bodyProperties typeChecker data)" "''; ''"]
      by simp
  qed
  then show ?thesis
    unfolding body0 pairs using node skip by (simp only: braces_empty option.inject) simp
qed

lemma parseSearchParams_returns:
  assumes "parseSearchParams typeChecker
             (case schema data of
                Some node \<Rightarrow> Some (getTypeAtLocation typeChecker node)
              | None \<Rightarrow> None)
           = Some (Inr searchParams0)"
  shows "searchParams0 =
           (case searchParamsObjectType typeChecker data of
              None \<Rightarrow> None
            | Some ty \<Rightarrow> Some (unwrapped typeChecker ty))"
    and "searchParamsObjectType typeChecker data = Some ty \<Longrightarrow>
           getZodTypeToString typeChecker (Some ty) = Some (Inr (unwrapped typeChecker ty))"
  using assms
  by (auto simp: parseSearchParams_def searchParamsObjectType_def andThen_returns unwrapped_def
      Let_def split: option.splits if_splits)

lemma parseSchema_returns:
  "(parseSchema typeChecker data skipBody = Some (Inr r)) =
     (\<exists>body0 searchParams0.
        parseBody typeChecker
          (case schema data of
             Some node \<Rightarrow> Some (getTypeAtLocation typeChecker node)
           | None \<Rightarrow> None)
          skipBody = Some (Inr body0)
        \<and> parseSearchParams typeChecker
            (case schema data of
               Some node \<Rightarrow> Some (getTypeAtLocation typeChecker node)
             | None \<Rightarrow> None) = Some (Inr searchParams0)
        \<and> r = \<lparr> body = (if body0 \<noteq> Some ''{  }'' then body0 else None),
                 searchParams = searchParams0,
                 returnType =
                   (case SchemaDescriptor.returnType data of
                      Some t \<Rightarrow> Some (typeToString typeChecker (Some t))
                    | None \<Rightarrow> None) \<rparr>)"
  by (auto simp: parseSchema_def andThen_returns Let_def)

text \<open>
  The call returns when every unwrapping it performs returns: those of the properties
  not named \<open>searchParams\<close>, unless the body is skipped, and that of the object type of
  \<open>searchParams\<close>.
\<close>

lemma parseSchema_total_when:
  assumes "\<not> skipBody \<Longrightarrow> \<forall>property \<in> set (schemaProperties typeChecker data).
             getName typeChecker property \<noteq> ''searchParams'' \<longrightarrow>
             (\<exists>s. getZodTypeToString typeChecker (Some (getTypeOfSymbol typeChecker property))
                  = Some (Inr s))"
    and "\<forall>ty. searchParamsObjectType typeChecker data = Some ty \<longrightarrow>
           (\<exists>s. getZodTypeToString typeChecker (Some ty) = Some (Inr s))"
  shows "\<exists>r. parseSchema typeChecker data skipBody = Some (Inr r)"
proof -
  have entries: "\<exists>entries. mapOutcome (propertyEntry typeChecker) properties = Some (Inr entries)"
    if "\<forall>property \<in> set properties.
             getName typeChecker property \<noteq> ''searchParams'' \<longrightarrow>
             (\<exists>s. getZodTypeToString typeChecker (Some (getTypeOfSymbol typeChecker property))
                  = Some (Inr s))" for properties
    using that
  proof (induction properties)
    case Nil
    show ?case by simp
  next
    case (Cons property properties)
    then obtain rest where "mapOutcome (propertyEntry typeChecker) properties = Some (Inr rest)"
      by auto
    moreover have "\<exists>entry. propertyEntry typeChecker property = Some (Inr entry)"
      using Cons.prems by (auto simp: propertyEntry_def andThen_def)
    ultimately show ?case
      by (auto simp: andThen_def)
  qed
  have "\<exists>body0. parseBody typeChecker
          (case schema data of
             Some node \<Rightarrow> Some (getTypeAtLocation typeChecker node)
           | None \<Rightarrow> None)
          skipBody = Some (Inr body0)"
  proof (cases "skipBody \<or> schema data = None")
    case True
    then show ?thesis by (auto simp: parseBody_def)
  next
    case False
    then obtain node where node: "schema data = Some node" and skip: "\<not> skipBody"
      by auto
    from entries [OF assms(1) [OF skip]] obtain es where
      "mapOutcome (propertyEntry typeChecker) (schemaProperties typeChecker data) = Some (Inr es)"
      by auto
    then show ?thesis
      by (simp add: parseBody_def node skip schemaProperties_def andThen_def)
  qed
  moreover
  have "\<exists>searchParams0. parseSearchParams typeChecker
          (case schema data of
             Some node \<Rightarrow> Some (getTypeAtLocation typeChecker node)
           | None \<Rightarrow> None) = Some (Inr searchParams0)"
    using assms(2)
    by (auto simp: parseSearchParams_def searchParamsObjectType_def andThen_def Let_def
        split: option.splits)
  ultimately show ?thesis
    unfolding parseSchema_returns by blast
qed

lemma searchParamsObjectType_defined:
  "(searchParamsObjectType typeChecker data \<noteq> None) =
     (\<exists>node symbol.
        schema data = Some node
        \<and> getProperty typeChecker (getTypeAtLocation typeChecker node) ''searchParams''
          = Some symbol
        \<and> (getFlags typeChecker (getTypeOfSymbol typeChecker symbol) AND TypeFlags_Object) \<noteq> 0)"
  by (auto simp: searchParamsObjectType_def split: option.splits)

text \<open>
  On a call of \<open>parseSchema\<close> that returns, the field \<open>body\<close> is absent exactly when
  \<open>skipBody\<close> is set, or no schema node is present, or every property of the schema's
  type is excluded (it is named \<open>searchParams\<close>, or its unwrapping is the empty string).
  Otherwise \<open>body\<close> is the record string of the \<open>name: type\<close> pairs of the properties that
  are not excluded, in order, separated by \<open>"; "\<close> and enclosed in \<open>"{ "\<close> and \<open>" }"\<close>.
\<close>

lemma parseSchema_body:
  assumes "parseSchema typeChecker data skipBody = Some (Inr r)"
  shows "body r =
           (if skipBody \<or> schema data = None \<or> bodyProperties typeChecker data = [] then None
            else Some (''{ '' @ join ''; ''
                         (map (bodyPair typeChecker) (bodyProperties typeChecker data)) @ '' }''))
         \<and> (body r = None) =
             (skipBody \<or> schema data = None
              \<or> (\<forall>property \<in> set (schemaProperties typeChecker data).
                    getName typeChecker property = ''searchParams''
                    \<or> unwrapped typeChecker (getTypeOfSymbol typeChecker property) = []))"
proof -
  from assms obtain body0 where
    body0: "parseBody typeChecker
              (case schema data of
                 Some node \<Rightarrow> Some (getTypeAtLocation typeChecker node)
               | None \<Rightarrow> None)
              skipBody = Some (Inr body0)"
    and r: "body r = (if body0 \<noteq> Some ''{  }'' then body0 else None)"
    unfolding parseSchema_returns by auto
  have first: "body r =
           (if skipBody \<or> schema data = None \<or> bodyProperties typeChecker data = [] then None
            else Some (''{ '' @ join ''; ''
                         (map (bodyPair typeChecker) (bodyProperties typeChecker data)) @ '' }''))"
    unfolding r by (rule parseBody_returns [OF body0])
  have "(bodyProperties typeChecker data = []) =
          (\<forall>property \<in> set (schemaProperties typeChecker data).
             getName typeChecker property = ''searchParams''
             \<or> unwrapped typeChecker (getTypeOfSymbol typeChecker property) = [])"
    by (auto simp: bodyProperties_def filter_empty_conv)
  with first show ?thesis
    by (simp split: if_splits)
qed

lemma parseSchema_body_example:
  "parseSchema exampleChecker \<lparr>schema = Some (OtherNode 5), returnType = Some 0\<rparr> False
   = Some (Inr \<lparr>body = Some ''{ name: string; tags: string[] }'',
                searchParams = Some ''{ page: number }'',
                returnType = Some ''string''\<rparr>)
   \<and> bodyProperties exampleChecker \<lparr>schema = Some (OtherNode 5), returnType = Some 0\<rparr> = [0, 2]
   \<and> ''{ name: string; tags: string[] }''
     = ''{ '' @ join ''; '' (map (bodyPair exampleChecker) [0, 2]) @ '' }''"
proof -
  have one: "getZodTypeToString exampleChecker (Some (Suc 0)) = Some (Inr ''string'')"
    by (simp add: getZodTypeToString.simps exampleChecker_def firstBaseType_def index_def)
  have four: "getZodTypeToString exampleChecker (Some 4) = Some (Inr ''string[]'')"
    by (simp add: getZodTypeToString.simps exampleChecker_def firstBaseType_def index_def)
  have returns:
    "parseSchema exampleChecker \<lparr>schema = Some (OtherNode 5), returnType = Some 0\<rparr> False
     = Some (Inr \<lparr>body = Some ''{ name: string; tags: string[] }'',
                  searchParams = Some ''{ page: number }'',
                  returnType = Some ''string''\<rparr>)"
    by (simp add: parseSchema_def parseBody_def parseSearchParams_def propertyEntry_def
        andThen_def getZodTypeToString.simps exampleChecker_def firstBaseType_def
        TypeFlags_Object_def index_def)
  have properties:
    "bodyProperties exampleChecker \<lparr>schema = Some (OtherNode 5), returnType = Some 0\<rparr> = [0, 2]"
    using one four
    by (simp add: bodyProperties_def schemaProperties_def unwrapped_def)
       (simp add: exampleChecker_def one four)
  from parseSchema_body [OF returns] returns properties show ?thesis
    by simp
qed

text \<open>
  On a call of \<open>parseSchema\<close> that returns, the field \<open>searchParams\<close> is defined if
  and only if a schema node is present, its type has a property named \<open>searchParams\<close> and
  the type of that property is flagged as an object type. When defined, its value is the
  string that unwrapping that type returns; in every other case it is absent.
\<close>

lemma parseSchema_searchParams:
  assumes "parseSchema typeChecker data skipBody = Some (Inr r)"
  shows "(searchParams r \<noteq> None) =
           (\<exists>node symbol.
              schema data = Some node
              \<and> getProperty typeChecker (getTypeAtLocation typeChecker node) ''searchParams''
                = Some symbol
              \<and> (getFlags typeChecker (getTypeOfSymbol typeChecker symbol) AND TypeFlags_Object)
                \<noteq> 0)
         \<and> searchParams r =
             (case searchParamsObjectType typeChecker data of
                None \<Rightarrow> None
              | Some ty \<Rightarrow> Some (unwrapped typeChecker ty))
         \<and> (\<forall>ty. searchParamsObjectType typeChecker data = Some ty \<longrightarrow>
               getZodTypeToString typeChecker (Some ty) = Some (Inr (unwrapped typeChecker ty)))"
proof -
  from assms obtain searchParams0 where
    sp: "parseSearchParams typeChecker
           (case schema data of
              Some node \<Rightarrow> Some (getTypeAtLocation typeChecker node)
            | None \<Rightarrow> None) = Some (Inr searchParams0)"
    and r: "searchParams r = searchParams0"
    unfolding parseSchema_returns by auto
  have "searchParams r =
             (case searchParamsObjectType typeChecker data of
                None \<Rightarrow> None
              | Some ty \<Rightarrow> Some (unwrapped typeChecker ty))"
    unfolding r by (rule parseSearchParams_returns(1) [OF sp])
  moreover from this have "(searchParams r \<noteq> None)
                            = (searchParamsObjectType typeChecker data \<noteq> None)"
    by (simp split: option.splits)
  ultimately show ?thesis
    using parseSearchParams_returns(2) [OF sp] searchParamsObjectType_defined [of typeChecker data]
    by blast
qed

lemma parseSchema_searchParams_example:
  "parseSchema exampleChecker \<lparr>schema = Some (OtherNode 5), returnType = Some 0\<rparr> True
   = Some (Inr \<lparr>body = None, searchParams = Some ''{ page: number }'',
                returnType = Some ''string''\<rparr>)
   \<and> searchParamsObjectType exampleChecker \<lparr>schema = Some (OtherNode 5), returnType = Some 0\<rparr>
     = Some 3
   \<and> getZodTypeToString exampleChecker (Some 3) = Some (Inr ''{ page: number }'')"
proof -
  have returns:
    "parseSchema exampleChecker \<lparr>schema = Some (OtherNode 5), returnType = Some 0\<rparr> True
     = Some (Inr \<lparr>body = None, searchParams = Some ''{ page: number }'',
                  returnType = Some ''string''\<rparr>)"
    by (simp add: parseSchema_def parseBody_def parseSearchParams_def
        andThen_def getZodTypeToString.simps exampleChecker_def firstBaseType_def
        TypeFlags_Object_def index_def)
  have object:
    "searchParamsObjectType exampleChecker \<lparr>schema = Some (OtherNode 5), returnType = Some 0\<rparr>
     = Some 3"
    by (simp add: searchParamsObjectType_def TypeFlags_Object_def exampleChecker_def)
  from parseSchema_searchParams [OF returns] returns object show ?thesis
    by simp
qed

text \<open>
  Among calls that return, the flag \<open>skipBody\<close> leaves the fields \<open>searchParams\<close> and \<open>returnType\<close> as they
  are: two calls on the same type checker and descriptor that return, one with the flag
  and one without, agree on both fields; and when the call without the flag returns, the
  call with the flag returns too.
\<close>

lemma parseSchema_skipBody_frame:
  "(parseSchema typeChecker data False = Some (Inr r) \<longrightarrow>
      (\<exists>r'. parseSchema typeChecker data True = Some (Inr r')
            \<and> searchParams r' = searchParams r \<and> returnType r' = returnType r))
   \<and> (parseSchema typeChecker data True = Some (Inr r1)
      \<and> parseSchema typeChecker data False = Some (Inr r2) \<longrightarrow>
      searchParams r1 = searchParams r2 \<and> returnType r1 = returnType r2)"
proof -
  have "parseBody typeChecker zodInputType True = Some (Inr None)" for zodInputType
    by (simp add: parseBody_def)
  then show ?thesis
    unfolding parseSchema_returns by auto
qed

lemma parseSchema_skipBody_frame_example:
  "\<exists>r'. parseSchema exampleChecker \<lparr>schema = Some (OtherNode 5), returnType = Some 0\<rparr> True
           = Some (Inr r')
         \<and> searchParams r' = Some ''{ page: number }'' \<and> returnType r' = Some ''string''"
proof -
  have returns:
    "parseSchema exampleChecker \<lparr>schema = Some (OtherNode 5), returnType = Some 0\<rparr> False
     = Some (Inr \<lparr>body = Some ''{ name: string; tags: string[] }'',
                  searchParams = Some ''{ page: number }'',
                  returnType = Some ''string''\<rparr>)"
    by (simp add: parseSchema_def parseBody_def parseSearchParams_def propertyEntry_def
        andThen_def getZodTypeToString.simps exampleChecker_def firstBaseType_def
        TypeFlags_Object_def index_def)
  from parseSchema_skipBody_frame
    [of exampleChecker "\<lparr>schema = Some (OtherNode 5), returnType = Some 0\<rparr>"
        "\<lparr>body = Some ''{ name: string; tags: string[] }'',
          searchParams = Some ''{ page: number }'',
          returnType = Some ''string''\<rparr>"]
  have "\<exists>r'. parseSchema exampleChecker \<lparr>schema = Some (OtherNode 5), returnType = Some 0\<rparr> True
           = Some (Inr r')
         \<and> searchParams r'
           = searchParams \<lparr>body = Some ''{ name: string; tags: string[] }'',
                           searchParams = Some ''{ page: number }'',
                           returnType = Some ''string''\<rparr>
         \<and> returnType r'
           = returnType \<lparr>body = Some ''{ name: string; tags: string[] }'',
                         searchParams = Some ''{ page: number }'',
                         returnType = Some ''string''\<rparr>"
    using returns by blast
  then show ?thesis
    by simp
qed

section \<open>parseSchema: calls that raise\<close>

text \<open>
  C6, at a failing input. The schema type 30 of the second example checker has the
  properties \<open>name\<close>, a string schema that unwraps to \<open>string\<close>, and \<open>method\<close>, of the
  primitive type \<open>string\<close>, whose unwrapping raises. With a schema node of that type and
  \<open>skipBody\<close> unset, \<open>parseSchema\<close> raises while it renders the body: it returns no
  \<open>body\<close>, neither absent nor the record of the property \<open>name\<close>.
\<close>

theorem parseSchema_body_raises:
  "getZodTypeToString plainChecker (Some 1) = Some (Inr ''string'')
   \<and> getZodTypeToString plainChecker (Some 0) = Some (Inl TypeError)
   \<and> parseSchema plainChecker \<lparr>schema = Some (OtherNode 30), returnType = Some 21\<rparr> False
     = Some (Inl TypeError)"
  by (simp add: parseSchema_def parseBody_def propertyEntry_def andThen_def
      getZodTypeToString.simps plainChecker_def firstBaseType_def index_def)

text \<open>
  C7, at a failing input. With a schema node of the schema type 31, all three conditions
  hold: the schema node is present, its type has the property \<open>searchParams\<close>, and the
  type 32 of that property is flagged as an object type. Unwrapping the plain object
  type 32 raises, so \<open>parseSchema\<close> raises, also when the body is skipped: it returns no
  \<open>searchParams\<close>.
\<close>

theorem parseSchema_searchParams_raises:
  "searchParamsObjectType plainChecker \<lparr>schema = Some (OtherNode 31), returnType = Some 21\<rparr>
   = Some 32
   \<and> getZodTypeToString plainChecker (Some 32) = Some (Inl TypeError)
   \<and> parseSchema plainChecker \<lparr>schema = Some (OtherNode 31), returnType = Some 21\<rparr> True
     = Some (Inl TypeError)"
  by (simp add: parseSchema_def parseBody_def parseSearchParams_def searchParamsObjectType_def
      andThen_def getZodTypeToString.simps plainChecker_def firstBaseType_def
      TypeFlags_Object_def index_def)

text \<open>
  C10, at a failing input. The schema type 7 of the first example checker has a property
  whose type cannot be unwrapped. The call without the flag \<open>skipBody\<close> raises while it
  renders the body; the call with the flag, on the same type checker and descriptor,
  returns a record with \<open>searchParams\<close> and \<open>returnType\<close>. So the flag decides more than the
  field \<open>body\<close>.
\<close>

theorem parseSchema_skipBody_avoids_raise:
  "parseSchema exampleChecker \<lparr>schema = Some (OtherNode 7), returnType = Some 21\<rparr> False
   = Some (Inl TypeError)
   \<and> parseSchema exampleChecker \<lparr>schema = Some (OtherNode 7), returnType = Some 21\<rparr> True
     = Some (Inr \<lparr>body = None, searchParams = None, returnType = Some ''void''\<rparr>)"
  by (simp add: parseSchema_def parseBody_def parseSearchParams_def propertyEntry_def
      andThen_def getZodTypeToString.simps exampleChecker_def firstBaseType_def index_def)

end
